theory Spec2Isabelle
  imports Main "HOL-Library.Word"
begin

section \<open>Server start-up and graceful shutdown of Fiber (start.go)\<close>

text \<open>
  A shallow embedding of \<^verbatim>\<open>start.go\<close>: the configuration resolver
  \<^verbatim>\<open>startConfigDefault\<close>, the entry point \<^verbatim>\<open>Start\<close>, the listener factory
  \<^verbatim>\<open>createListener\<close>, \<^verbatim>\<open>startupProcess\<close>, \<^verbatim>\<open>printMessages\<close> and the shutdown
  controller \<^verbatim>\<open>gracefulShutdown\<close>.

  Go values are modelled as follows. A \<^verbatim>\<open>nil\<close> pointer, interface or function value is
  \<open>None\<close>. An \<^verbatim>\<open>error\<close> result is \<open>error option\<close>, \<open>None\<close> being \<^verbatim>\<open>nil\<close>. A call
  that can panic or end the process yields an outcome value. Every call that has an
  effect outside the function (binding a socket, invoking a user hook, serving) is written
  to a trace of events, in program order.
\<close>

subsection \<open>Data model\<close>

text \<open>
  Errors. \<^verbatim>\<open>ErrGracefulTimeout\<close> is the package's timeout error value. \<open>Err\<close> stands for
  an error of the operating system or a library, named by its message. \<open>Errorf_TLSKeyPair\<close>
  is the error made at line 152 by
  \<^verbatim>\<open>fmt.Errorf("tls: cannot load TLS key pair from certFile=%q and keyFile=%q: %s", ...)\<close>:
  it carries the two paths and the cause.
\<close>

datatype error =
    ErrGracefulTimeout
  | Err string
  | Errorf_TLSKeyPair string string error

text \<open>\<^verbatim>\<open>os.Signal\<close>; \<^verbatim>\<open>os.Interrupt\<close> is the interrupt signal.\<close>

datatype Signal = Interrupt | Kill | OtherSignal nat

text \<open>\<^verbatim>\<open>tls.Certificate\<close> (a loaded key pair) and a certificate of an \<^verbatim>\<open>x509.CertPool\<close>.\<close>

datatype tls_Certificate = KeyPair string

datatype x509_Certificate = X509 string

type_synonym CertPool = "x509_Certificate list"

text \<open>\<^verbatim>\<open>tls.ClientAuthType\<close>, in the order of its constants; the zero value is \<open>NoClientCert\<close>.\<close>

datatype ClientAuthType =
    NoClientCert
  | RequestClientCert
  | RequireAnyClientCert
  | VerifyClientCertIfGiven
  | RequireAndVerifyClientCert

text \<open>
  The fields of \<^verbatim>\<open>tls.Config\<close> that \<^verbatim>\<open>Start\<close> writes. \<open>MinVersion\<close> is a
  \<^verbatim>\<open>uint16\<close>; \<open>ClientCAs\<close> is a pointer to a pool, \<^verbatim>\<open>nil\<close> when unset.
\<close>

record tls_Config =
  MinVersion :: "16 word"
  Certificates :: "tls_Certificate list"
  ClientAuth :: ClientAuthType
  ClientCAs :: "CertPool option"

text \<open>\<^verbatim>\<open>tls.VersionTLS12 = 0x0303\<close>.\<close>

definition VersionTLS12 :: "16 word" where
  "VersionTLS12 = 0x0303"

text \<open>\<^verbatim>\<open>net.Addr\<close>: the network and the textual address.\<close>

record net_Addr =
  Network :: string
  String :: string

text \<open>
  \<^verbatim>\<open>net.Listener\<close>: a bound listener, with its address and the TLS configuration
  it negotiates with (\<open>None\<close> for a plain listener).
\<close>

record Listener =
  Addr :: net_Addr
  lnTLS :: "tls_Config option"

text \<open>
  An on-listen hook is a \<^verbatim>\<open>func() error\<close>; it is represented by the error it returns.
  The application holds the ordered list of its registered hooks.
\<close>

type_synonym OnListenHandler = "error option"

record App =
  onListen :: "OnListenHandler list"

text \<open>
  What a call of \<^verbatim>\<open>OnShutdownError\<close> does as far as the controller can see: it returns,
  or it ends the process with an exit status (as \<^verbatim>\<open>log.Fatalf\<close> does, with status 1).
\<close>

datatype callback_result = CallbackReturns | CallbackExits int

text \<open>
  \<^verbatim>\<open>StartConfig\<close>, field by field. \<open>GracefulTimeout\<close> is a \<^verbatim>\<open>time.Duration\<close>,
  an \<^verbatim>\<open>int64\<close> of nanoseconds. \<open>GracefulSignals\<close> is a slice; \<^verbatim>\<open>nil\<close> and the
  empty slice are both \<open>[]\<close> (the code only takes its length). A function-valued field is
  \<open>None\<close> when \<^verbatim>\<open>nil\<close>. \<open>TLSConfigFunc\<close> receives a pointer and may mutate what it points
  to: it is the function from the configuration before to the configuration after.
\<close>

record StartConfig =
  ListenerNetwork :: string
  CertFile :: string
  CertKeyFile :: string
  CertClientFile :: string
  GracefulSignals :: "Signal list"
  GracefulTimeout :: "64 word"
  TLSConfigFunc :: "(tls_Config \<Rightarrow> tls_Config) option"
  ListenerAddrFunc :: "(net_Addr \<Rightarrow> unit) option"
  BeforeServeFunc :: "(App \<Rightarrow> error option) option"
  DisableStartupMessage :: bool
  EnablePrefork :: bool
  EnablePrintRoutes :: bool
  OnShutdownError :: "(error \<Rightarrow> callback_result) option"

text \<open>\<^verbatim>\<open>time.Second\<close>, in nanoseconds.\<close>

definition Second :: "64 word" where
  "Second = 1000000000"

text \<open>
  Modelled from the spec: the constant \<^verbatim>\<open>NetworkTCP4\<close> is declared outside
  \<^verbatim>\<open>start.go\<close>; the data model of the specification names the default network kind tcp4.
\<close>

definition NetworkTCP4 :: string where
  "NetworkTCP4 = ''tcp4''"

text \<open>
  The function literal \<^verbatim>\<open>func(err error) { log.Fatalf("shutdown: %v", err) }\<close>:
  \<^verbatim>\<open>log.Fatalf\<close> prints and then calls \<^verbatim>\<open>os.Exit(1)\<close>.
\<close>

definition logFatalf :: "error \<Rightarrow> callback_result" where
  "logFatalf err = CallbackExits 1"

subsection \<open>Configuration resolver\<close>

text \<open>
  \<^verbatim>\<open>startConfigDefault(config ...StartConfig)\<close>, lines 104 to 136. The variadic
  parameter is the list of the configurations passed; only the first is read.
\<close>

definition startConfigDefault :: "StartConfig list \<Rightarrow> StartConfig" where
  "startConfigDefault config =
     (if length config < 1 then
        \<lparr> ListenerNetwork = NetworkTCP4,
          CertFile = '''',
          CertKeyFile = '''',
          CertClientFile = '''',
          GracefulSignals = [Interrupt],
          GracefulTimeout = 10 * Second,
          TLSConfigFunc = None,
          ListenerAddrFunc = None,
          BeforeServeFunc = None,
          DisableStartupMessage = False,
          EnablePrefork = False,
          EnablePrintRoutes = False,
          OnShutdownError = Some logFatalf \<rparr>
      else
        let cfg = hd config;
            cfg = (if GracefulTimeout cfg = 0
                   then cfg\<lparr>GracefulTimeout := 10 * Second\<rparr> else cfg);
            cfg = (if length (GracefulSignals cfg) < 1
                   then cfg\<lparr>GracefulSignals := [Interrupt]\<rparr> else cfg);
            cfg = (if ListenerNetwork cfg = ''''
                   then cfg\<lparr>ListenerNetwork := NetworkTCP4\<rparr> else cfg);
            cfg = (if OnShutdownError cfg = None
                   then cfg\<lparr>OnShutdownError := Some logFatalf\<rparr> else cfg)
        in cfg)"

text \<open>
  The number of fields of a configuration that hold the zero value of their Go type
  (the empty string, the empty slice, 0, \<^verbatim>\<open>nil\<close>, \<^verbatim>\<open>false\<close>), out of thirteen.
\<close>

definition zeroFields :: "StartConfig \<Rightarrow> nat" where
  "zeroFields cfg =
     length (filter id
       [ ListenerNetwork cfg = '''',
         CertFile cfg = '''',
         CertKeyFile cfg = '''',
         CertClientFile cfg = '''',
         GracefulSignals cfg = [],
         GracefulTimeout cfg = 0,
         TLSConfigFunc cfg = None,
         ListenerAddrFunc cfg = None,
         BeforeServeFunc cfg = None,
         \<not> DisableStartupMessage cfg,
         \<not> EnablePrefork cfg,
         \<not> EnablePrintRoutes cfg,
         OnShutdownError cfg = None ])"

subsection \<open>The world outside the file\<close>

text \<open>
  The calls \<^verbatim>\<open>Start\<close> makes into the standard library and into the rest of the
  package are parameters: what they return is given by a \<open>world\<close>. A call that returns
  \<^verbatim>\<open>(value, error)\<close> is a sum, \<open>Inl\<close> the error.
  \<^item> \<open>LoadX509KeyPair\<close>, \<open>ReadFile\<close>, \<open>Clean\<close>: \<^verbatim>\<open>tls.LoadX509KeyPair\<close>,
    \<^verbatim>\<open>os.ReadFile\<close>, \<^verbatim>\<open>filepath.Clean\<close>;
  \<^item> \<open>parsePEM\<close>: the certificates that \<^verbatim>\<open>AppendCertsFromPEM\<close> can parse out of
    the bytes of a file;
  \<^item> \<open>net_Listen\<close>, \<open>tls_Listen\<close>: \<^verbatim>\<open>net.Listen\<close> and \<^verbatim>\<open>tls.Listen\<close>;
  \<^item> \<open>prefork\<close>, \<open>lnMetadata\<close>: \<^verbatim>\<open>app.prefork\<close> and \<^verbatim>\<open>lnMetadata\<close>, declared
    outside \<^verbatim>\<open>start.go\<close>;
  \<^item> \<open>Serve\<close>: the error with which \<^verbatim>\<open>app.server.Serve\<close> returns.
\<close>

record world =
  LoadX509KeyPair :: "string \<Rightarrow> string \<Rightarrow> error + tls_Certificate"
  ReadFile :: "string \<Rightarrow> error + string"
  Clean :: "string \<Rightarrow> string"
  parsePEM :: "string \<Rightarrow> x509_Certificate list"
  net_Listen :: "string \<Rightarrow> string \<Rightarrow> error + Listener"
  tls_Listen :: "string \<Rightarrow> string \<Rightarrow> tls_Config \<Rightarrow> error + Listener"
  prefork :: "string \<Rightarrow> tls_Config option \<Rightarrow> StartConfig \<Rightarrow> error option"
  lnMetadata :: "string \<Rightarrow> Listener \<Rightarrow> string \<times> tls_Config option"
  Serve :: "Listener \<Rightarrow> error option"

text \<open>What a panic carries.\<close>

datatype panic =
    PanicString string
  | PanicError error
  | NilPointerDereference

text \<open>A call returns a value or panics.\<close>

datatype 'a outcome = Returns 'a | Panics panic

text \<open>How the process ends: \<^verbatim>\<open>os.Exit\<close> with a status, or never (a call blocks for ever).\<close>

datatype process_end = Exit int | Blocked

text \<open>The calls with an effect outside the function, as they appear in a trace.\<close>

datatype event =
    EvTLSConfigFunc "tls_Config option"
  | EvListen string string "tls_Config option"
  | EvListenerAddrFunc net_Addr
  | EvPrefork string "tls_Config option"
  | EvExecuteOnListenHooks
  | EvBuildTree
  | EvStartupMessage string bool
  | EvPrintRoutesMessage
  | EvBeforeServeFunc
  | EvServe Listener
  | EvShutdown
  | EvOnShutdownError error

text \<open>
  The argument \<^verbatim>\<open>addr any\<close> of \<^verbatim>\<open>Start\<close>, by the cases of the type switch:
  a \<^verbatim>\<open>string\<close>, a \<^verbatim>\<open>net.Listener\<close>, or a value of any other dynamic type
  (named by its type; \<^verbatim>\<open>nil\<close> is one of them).
\<close>

datatype addr_value = AString string | AListener Listener | AOther string

subsection \<open>TLS configuration\<close>

text \<open>\<^verbatim>\<open>x509.NewCertPool()\<close>.\<close>

definition NewCertPool :: CertPool where
  "NewCertPool = []"

text \<open>
  \<^verbatim>\<open>(*CertPool).AppendCertsFromPEM\<close>: the pool with the certificates parsed from the
  bytes added, and whether any certificate was parsed.
\<close>

definition AppendCertsFromPEM :: "world \<Rightarrow> CertPool \<Rightarrow> string \<Rightarrow> CertPool \<times> bool" where
  "AppendCertsFromPEM w pool pemCerts = (pool @ parsePEM w pemCerts, parsePEM w pemCerts \<noteq> [])"

text \<open>
  Lines 147 to 174 of \<^verbatim>\<open>Start\<close>, the block under \<^verbatim>\<open>// Configure TLS\<close>:
  \<open>Inl err\<close> when the block returns \<^verbatim>\<open>err\<close> from \<^verbatim>\<open>Start\<close>, otherwise the value
  of \<^verbatim>\<open>tlsConfig\<close> after the block. The boolean of \<^verbatim>\<open>AppendCertsFromPEM\<close> is
  dropped, as the statement at line 169 drops it.
\<close>

definition Start_tlsConfig :: "world \<Rightarrow> StartConfig \<Rightarrow> error + tls_Config option" where
  "Start_tlsConfig w cfg =
     (if CertFile cfg \<noteq> '''' \<and> CertKeyFile cfg \<noteq> '''' then
        (case LoadX509KeyPair w (CertFile cfg) (CertKeyFile cfg) of
           Inl err \<Rightarrow> Inl (Errorf_TLSKeyPair (CertFile cfg) (CertKeyFile cfg) err)
         | Inr cert \<Rightarrow>
             let tlsConfig = \<lparr> MinVersion = VersionTLS12,
                               Certificates = [cert],
                               ClientAuth = NoClientCert,
                               ClientCAs = None \<rparr>
             in if CertClientFile cfg \<noteq> '''' then
                  (case ReadFile w (Clean w (CertClientFile cfg)) of
                     Inl err \<Rightarrow> Inl err
                   | Inr clientCACert \<Rightarrow>
                       let clientCertPool = fst (AppendCertsFromPEM w NewCertPool clientCACert)
                       in Inr (Some (tlsConfig\<lparr> ClientAuth := RequireAndVerifyClientCert,
                                                ClientCAs := Some clientCertPool \<rparr>)))
                else Inr (Some tlsConfig))
      else Inr None)"

text \<open>
  What \<^verbatim>\<open>crypto/tls\<close> does with the two fields during a handshake, by the documented
  meaning of each \<^verbatim>\<open>ClientAuthType\<close>: whether a client presenting the given
  certificate (or none) passes client authentication. A certificate is verified when
  some certificate of the pool vouches for it; \<open>vouches\<close> is the signature check, a parameter.
\<close>

definition verifiedBy ::
  "(x509_Certificate \<Rightarrow> x509_Certificate \<Rightarrow> bool) \<Rightarrow> CertPool option \<Rightarrow> x509_Certificate \<Rightarrow> bool" where
  "verifiedBy vouches pool c =
     (case pool of None \<Rightarrow> False | Some cas \<Rightarrow> list_ex (\<lambda>ca. vouches ca c) cas)"

definition clientAuthPasses ::
  "(x509_Certificate \<Rightarrow> x509_Certificate \<Rightarrow> bool) \<Rightarrow> tls_Config \<Rightarrow> x509_Certificate option \<Rightarrow> bool" where
  "clientAuthPasses vouches tc presented =
     (case ClientAuth tc of
        NoClientCert \<Rightarrow> True
      | RequestClientCert \<Rightarrow> True
      | RequireAnyClientCert \<Rightarrow> presented \<noteq> None
      | VerifyClientCertIfGiven \<Rightarrow>
          (case presented of None \<Rightarrow> True | Some c \<Rightarrow> verifiedBy vouches (ClientCAs tc) c)
      | RequireAndVerifyClientCert \<Rightarrow>
          (case presented of None \<Rightarrow> False | Some c \<Rightarrow> verifiedBy vouches (ClientCAs tc) c))"

subsection \<open>Listener factory\<close>

text \<open>
  \<^verbatim>\<open>createListener\<close>, lines 231 to 246. \<^verbatim>\<open>net.Listen\<close> and \<^verbatim>\<open>tls.Listen\<close>
  return \<^verbatim>\<open>(nil, err)\<close> on failure and \<^verbatim>\<open>(listener, nil)\<close> on success. Line 242
  evaluates \<^verbatim>\<open>listener.Addr()\<close> before it calls the hook: on a \<^verbatim>\<open>nil\<close> listener
  that method call is a nil pointer dereference, a run-time panic.
\<close>

definition createListener ::
  "world \<Rightarrow> string \<Rightarrow> tls_Config option \<Rightarrow> StartConfig
     \<Rightarrow> event list \<times> (Listener option \<times> error option) outcome" where
  "createListener w addr tlsConfig cfg =
     (let r = (case tlsConfig of
                 Some tc \<Rightarrow> tls_Listen w (ListenerNetwork cfg) addr tc
               | None \<Rightarrow> net_Listen w (ListenerNetwork cfg) addr);
          listener = (case r of Inl e \<Rightarrow> None | Inr l \<Rightarrow> Some l);
          err = (case r of Inl e \<Rightarrow> Some e | Inr l \<Rightarrow> None);
          ev = [EvListen (ListenerNetwork cfg) addr tlsConfig]
      in if ListenerAddrFunc cfg \<noteq> None then
           (case listener of
              None \<Rightarrow> (ev, Panics NilPointerDereference)
            | Some l \<Rightarrow> (ev @ [EvListenerAddrFunc (Addr l)], Returns (listener, err)))
         else (ev, Returns (listener, err)))"

subsection \<open>Start-up\<close>

text \<open>
  \<^verbatim>\<open>printMessages\<close>, lines 248 to 258: the calls it makes. \<^verbatim>\<open>getTlsConfig(ln)\<close>
  reads the TLS configuration of the listener.
\<close>

definition printMessages :: "StartConfig \<Rightarrow> Listener \<Rightarrow> event list" where
  "printMessages cfg ln =
     (if \<not> DisableStartupMessage cfg
      then [EvStartupMessage (String (Addr ln)) (lnTLS ln \<noteq> None)] else [])
     @ (if EnablePrintRoutes cfg then [EvPrintRoutesMessage] else [])"

text \<open>
  Modelled from the spec: \<^verbatim>\<open>executeOnListenHooks\<close> is declared outside
  \<^verbatim>\<open>start.go\<close>. The specification describes an ordered sequence of zero-argument
  hooks executed synchronously, where any hook failure aborts with its error: the hooks
  run in order and the first error is returned.
\<close>

fun executeOnListenHooks :: "OnListenHandler list \<Rightarrow> error option" where
  "executeOnListenHooks [] = None"
| "executeOnListenHooks (h # hs) =
     (case h of Some err \<Rightarrow> Some err | None \<Rightarrow> executeOnListenHooks hs)"

text \<open>\<^verbatim>\<open>startupProcess\<close>, lines 261 to 271.\<close>

definition startupProcess :: "App \<Rightarrow> event list \<times> App outcome" where
  "startupProcess app =
     (case executeOnListenHooks (onListen app) of
        Some err \<Rightarrow> ([EvExecuteOnListenHooks], Panics (PanicError err))
      | None \<Rightarrow> ([EvExecuteOnListenHooks, EvBuildTree], Returns app))"

text \<open>
  \<^verbatim>\<open>Start\<close>, lines 144 to 228, is embedded block by block: the TLS block above, the
  type switch on \<^verbatim>\<open>addr\<close>, the statements after the switch, and \<open>Start\<close> itself,
  which runs them in the order of the source. The call of the graceful shutdown controller
  at lines 181 to 184 is commented out in the source and is not part of it.

  Where the type switch leaves control: \<^verbatim>\<open>Start\<close> is over (a \<^verbatim>\<open>return\<close> or a panic
  inside the switch), or it goes on with \<^verbatim>\<open>ln\<close> bound.
\<close>

datatype switch_exit = Leaves "error option outcome" | GoesOn Listener

text \<open>
  Lines 189 to 212, \<^verbatim>\<open>switch addr := addr.(type)\<close>. In the \<^verbatim>\<open>string\<close> case without
  prefork, \<^verbatim>\<open>createListener\<close> returns \<^verbatim>\<open>(ln, err)\<close> and \<^verbatim>\<open>err != nil\<close> returns
  \<^verbatim>\<open>err\<close>. In the \<^verbatim>\<open>net.Listener\<close> case with prefork, the \<^verbatim>\<open>tlsConfig\<close> given to
  \<^verbatim>\<open>prefork\<close> is the one \<^verbatim>\<open>lnMetadata\<close> returns, which shadows the outer one.
\<close>

definition Start_switch ::
  "world \<Rightarrow> addr_value \<Rightarrow> tls_Config option \<Rightarrow> StartConfig \<Rightarrow> event list \<times> switch_exit" where
  "Start_switch w addr tlsConfig cfg =
     (case addr of
        AString a \<Rightarrow>
          if EnablePrefork cfg
          then ([EvPrefork a tlsConfig], Leaves (Returns (prefork w a tlsConfig cfg)))
          else (case createListener w a tlsConfig cfg of
                  (ev, Panics p) \<Rightarrow> (ev, Leaves (Panics p))
                | (ev, Returns (ln, Some err)) \<Rightarrow> (ev, Leaves (Returns (Some err)))
                | (ev, Returns (Some ln, None)) \<Rightarrow> (ev, GoesOn ln)
                | (ev, Returns (None, None)) \<Rightarrow> (ev, Leaves (Panics NilPointerDereference)))
      | AListener l \<Rightarrow>
          if EnablePrefork cfg
          then (case lnMetadata w (ListenerNetwork cfg) l of
                  (newAddr, tlsConfig1) \<Rightarrow>
                    ([EvPrefork newAddr tlsConfig1],
                     Leaves (Returns (prefork w newAddr tlsConfig1 cfg))))
          else ([], GoesOn l)
      | AOther t \<Rightarrow>
          ([], Leaves (Panics (PanicString
             ''start: invalid handler, you must use string or net.Listener as addr type''))))"

text \<open>
  Lines 214 to 227: \<^verbatim>\<open>startupProcess\<close>, \<^verbatim>\<open>printMessages\<close>, the
  \<^verbatim>\<open>BeforeServeFunc\<close> hook and \<^verbatim>\<open>app.server.Serve(ln)\<close>.
\<close>

definition Start_serve ::
  "world \<Rightarrow> App \<Rightarrow> StartConfig \<Rightarrow> Listener \<Rightarrow> event list \<times> error option outcome" where
  "Start_serve w app cfg ln =
     (case startupProcess app of
        (ev2, Panics p) \<Rightarrow> (ev2, Panics p)
      | (ev2, Returns app1) \<Rightarrow>
          (case BeforeServeFunc cfg of
             Some f \<Rightarrow>
               (case f app1 of
                  Some err \<Rightarrow>
                    (ev2 @ printMessages cfg ln @ [EvBeforeServeFunc], Returns (Some err))
                | None \<Rightarrow>
                    (ev2 @ printMessages cfg ln @ [EvBeforeServeFunc, EvServe ln],
                     Returns (Serve w ln)))
           | None \<Rightarrow> (ev2 @ printMessages cfg ln @ [EvServe ln], Returns (Serve w ln))))"

text \<open>
  \<^verbatim>\<open>Start\<close>: the trace of its calls and how it ends. It returns an \<^verbatim>\<open>error\<close>,
  \<open>None\<close> when \<^verbatim>\<open>nil\<close>. Lines 176 to 178 call \<^verbatim>\<open>TLSConfigFunc\<close> with the pointer
  \<^verbatim>\<open>tlsConfig\<close>: a \<^verbatim>\<open>nil\<close> pointer stays \<^verbatim>\<open>nil\<close>.
\<close>

definition Start ::
  "world \<Rightarrow> App \<Rightarrow> addr_value \<Rightarrow> StartConfig list \<Rightarrow> event list \<times> error option outcome" where
  "Start w app addr config =
     (let cfg = startConfigDefault config in
      case Start_tlsConfig w cfg of
        Inl err \<Rightarrow> ([], Returns (Some err))
      | Inr tlsConfig0 \<Rightarrow>
         (let ev0 = (case TLSConfigFunc cfg of
                       Some f \<Rightarrow> [EvTLSConfigFunc tlsConfig0]
                     | None \<Rightarrow> []);
              tlsConfig = (case TLSConfigFunc cfg of
                             Some f \<Rightarrow> map_option f tlsConfig0
                           | None \<Rightarrow> tlsConfig0)
          in (case Start_switch w addr tlsConfig cfg of
                (ev1, Leaves r) \<Rightarrow> (ev0 @ ev1, r)
              | (ev1, GoesOn ln) \<Rightarrow>
                  (case Start_serve w app cfg ln of
                     (ev2, r) \<Rightarrow> (ev0 @ ev1 @ ev2, r)))))"

subsection \<open>Graceful shutdown controller\<close>

text \<open>
  What \<^verbatim>\<open>app.Shutdown()\<close> (declared outside \<^verbatim>\<open>start.go\<close>) does when called: it returns
  after a duration (in nanoseconds) with an error or \<^verbatim>\<open>nil\<close>, or it never returns.
\<close>

datatype drain_result = DrainReturns int "error option" | DrainNeverReturns

text \<open>
  The surroundings of one run of the controller:
  \<^item> \<open>signalArrives\<close>: whether \<^verbatim>\<open>ctx.Done()\<close> ever becomes ready;
  \<^item> \<open>selectDelay\<close>: the nanoseconds between the creation of \<^verbatim>\<open>timeoutCtx\<close> at line 525
    and the \<^verbatim>\<open>select\<close> at line 528;
  \<^item> \<open>drain\<close>: what \<^verbatim>\<open>app.Shutdown()\<close> does.
\<close>

record shutdown_env =
  signalArrives :: bool
  selectDelay :: int
  drain :: drain_result

text \<open>
  \<^verbatim>\<open>gracefulShutdown\<close>, lines 522 to 540. The \<^verbatim>\<open>select\<close> has a \<^verbatim>\<open>default\<close> case, so
  it does not wait: it takes the case \<^verbatim>\<open>timeoutCtx.Done()\<close> only if that channel is ready
  when the \<^verbatim>\<open>select\<close> runs, that is, if the timeout (a signed duration) has already
  passed by then; otherwise it takes \<^verbatim>\<open>default\<close>, which calls \<^verbatim>\<open>app.Shutdown()\<close> and
  waits for it to return. A callback that ends the process ends it with its own status.
\<close>

definition gracefulShutdown :: "shutdown_env \<Rightarrow> StartConfig \<Rightarrow> event list \<times> process_end" where
  "gracefulShutdown env cfg =
     (if \<not> signalArrives env then ([], Blocked)
      else if sint (GracefulTimeout cfg) \<le> selectDelay env then
        (case OnShutdownError cfg of
           Some f \<Rightarrow>
             (case f ErrGracefulTimeout of
                CallbackExits n \<Rightarrow> ([EvOnShutdownError ErrGracefulTimeout], Exit n)
              | CallbackReturns \<Rightarrow> ([EvOnShutdownError ErrGracefulTimeout], Exit 1))
         | None \<Rightarrow> ([], Exit 1))
      else
        (case drain env of
           DrainNeverReturns \<Rightarrow> ([EvShutdown], Blocked)
         | DrainReturns d None \<Rightarrow> ([EvShutdown], Exit 0)
         | DrainReturns d (Some err) \<Rightarrow>
             (case OnShutdownError cfg of
                Some f \<Rightarrow>
                  (case f err of
                     CallbackExits n \<Rightarrow> ([EvShutdown, EvOnShutdownError err], Exit n)
                   | CallbackReturns \<Rightarrow> ([EvShutdown, EvOnShutdownError err], Exit 0))
              | None \<Rightarrow> ([EvShutdown], Exit 0))))"

subsection \<open>A sample world\<close>

text \<open>
  A concrete world for evaluating the functions: the key pair \<^verbatim>\<open>cert.pem\<close> /
  \<^verbatim>\<open>key.pem\<close> loads, \<^verbatim>\<open>ca.pem\<close> holds one certificate, \<^verbatim>\<open>notes.txt\<close> is
  readable and holds none, no other file exists; port 8080 (plain) and port 8443 (TLS) are
  free and every other address is in use; the prefork coordinator and the accept loop end
  with an error of their own.
\<close>

definition sampleWorld :: world where
  "sampleWorld =
     \<lparr> LoadX509KeyPair =
         (\<lambda>certFile keyFile.
            if certFile = ''cert.pem'' \<and> keyFile = ''key.pem''
            then Inr (KeyPair ''cert.pem'')
            else Inl (Err ''open: no such file or directory'')),
       ReadFile =
         (\<lambda>name. if name = ''ca.pem'' then Inr ''PEM ca''
                  else if name = ''notes.txt'' then Inr ''no certificate here''
                  else Inl (Err ''open: no such file or directory'')),
       Clean = (\<lambda>path. path),
       parsePEM = (\<lambda>bytes. if bytes = ''PEM ca'' then [X509 ''ca''] else []),
       net_Listen =
         (\<lambda>network address.
            if address = '':8080''
            then Inr \<lparr> Addr = \<lparr> Network = network, String = address \<rparr>, lnTLS = None \<rparr>
            else Inl (Err ''bind: address already in use'')),
       tls_Listen =
         (\<lambda>network address config.
            if address = '':8443''
            then Inr \<lparr> Addr = \<lparr> Network = network, String = address \<rparr>, lnTLS = Some config \<rparr>
            else Inl (Err ''bind: address already in use'')),
       prefork = (\<lambda>address tlsConfig cfg. Some (Err ''prefork: child exited'')),
       lnMetadata = (\<lambda>network ln. (String (Addr ln), lnTLS ln)),
       Serve = (\<lambda>ln. Some (Err ''listener closed'')) \<rparr>"

text \<open>The signature check of the sample world: a certificate vouches for itself only.\<close>

definition sampleVouches :: "x509_Certificate \<Rightarrow> x509_Certificate \<Rightarrow> bool" where
  "sampleVouches ca c = (ca = c)"

section \<open>Properties\<close>

subsection \<open>Configuration resolver\<close>

lemma ten_seconds_nonzero: "10 * Second \<noteq> (0::64 word)"
  by (simp add: Second_def)

lemma sint_ten_seconds: "sint (10 * Second) = 10000000000"
  by (simp add: Second_def)

lemma startConfigDefault_Nil:
  "startConfigDefault [] =
     \<lparr> ListenerNetwork = NetworkTCP4, CertFile = '''', CertKeyFile = '''', CertClientFile = '''',
       GracefulSignals = [Interrupt], GracefulTimeout = 10 * Second, TLSConfigFunc = None,
       ListenerAddrFunc = None, BeforeServeFunc = None, DisableStartupMessage = False,
       EnablePrefork = False, EnablePrintRoutes = False, OnShutdownError = Some logFatalf \<rparr>"
  by (simp add: startConfigDefault_def)

lemma startConfigDefault_Cons:
  "startConfigDefault (c # rest) =
     c\<lparr> GracefulTimeout := (if GracefulTimeout c = 0 then 10 * Second else GracefulTimeout c),
        GracefulSignals := (if GracefulSignals c = [] then [Interrupt] else GracefulSignals c),
        ListenerNetwork := (if ListenerNetwork c = '''' then NetworkTCP4 else ListenerNetwork c),
        OnShutdownError := (if OnShutdownError c = None then Some logFatalf else OnShutdownError c) \<rparr>"
  by (simp add: startConfigDefault_def Let_def)

lemma startConfigDefault_passes:
  "CertFile (startConfigDefault (c # rest)) = CertFile c"
  "CertKeyFile (startConfigDefault (c # rest)) = CertKeyFile c"
  "CertClientFile (startConfigDefault (c # rest)) = CertClientFile c"
  "TLSConfigFunc (startConfigDefault (c # rest)) = TLSConfigFunc c"
  "ListenerAddrFunc (startConfigDefault (c # rest)) = ListenerAddrFunc c"
  "BeforeServeFunc (startConfigDefault (c # rest)) = BeforeServeFunc c"
  "DisableStartupMessage (startConfigDefault (c # rest)) = DisableStartupMessage c"
  "EnablePrefork (startConfigDefault (c # rest)) = EnablePrefork c"
  "EnablePrintRoutes (startConfigDefault (c # rest)) = EnablePrintRoutes c"
  by (simp_all add: startConfigDefault_Cons)

lemma startConfigDefault_nonzero:
  "ListenerNetwork (startConfigDefault config) \<noteq> ''''
   \<and> GracefulTimeout (startConfigDefault config) \<noteq> 0
   \<and> GracefulSignals (startConfigDefault config) \<noteq> []
   \<and> OnShutdownError (startConfigDefault config) \<noteq> None"
  by (cases config)
     (simp_all add: startConfigDefault_Nil startConfigDefault_Cons ten_seconds_nonzero
        NetworkTCP4_def)

lemma startConfigDefault_fixed:
  assumes "ListenerNetwork c \<noteq> ''''" and "GracefulTimeout c \<noteq> 0"
    and "GracefulSignals c \<noteq> []" and "OnShutdownError c \<noteq> None"
  shows "startConfigDefault (c # rest) = c"
  using assms by (simp add: startConfigDefault_Cons)

lemma startConfigDefault_idem:
  "startConfigDefault (startConfigDefault config # rest) = startConfigDefault config"
  using startConfigDefault_nonzero [of config] by (intro startConfigDefault_fixed) simp_all

text \<open>
  Claim C4, as amended. Resolution is a total function. Without an argument it returns the
  defaults: network tcp4, timeout 10 seconds, signals {interrupt}, the log-and-exit
  callback, and the zero value in each of the nine other fields. With an argument it
  replaces the zero value in exactly these four fields by the default and returns every
  other field, and every non-zero value of the four, as given. The result never holds a
  zero value in any of the four fields, and resolving a resolved configuration returns it
  unchanged.
\<close>

theorem startConfigDefault_four_defaults:
  "startConfigDefault [] =
     \<lparr> ListenerNetwork = NetworkTCP4, CertFile = '''', CertKeyFile = '''', CertClientFile = '''',
       GracefulSignals = [Interrupt], GracefulTimeout = 10 * Second, TLSConfigFunc = None,
       ListenerAddrFunc = None, BeforeServeFunc = None, DisableStartupMessage = False,
       EnablePrefork = False, EnablePrintRoutes = False, OnShutdownError = Some logFatalf \<rparr>
   \<and> startConfigDefault (c # rest) =
     c\<lparr> GracefulTimeout := (if GracefulTimeout c = 0 then 10 * Second else GracefulTimeout c),
        GracefulSignals := (if GracefulSignals c = [] then [Interrupt] else GracefulSignals c),
        ListenerNetwork := (if ListenerNetwork c = '''' then NetworkTCP4 else ListenerNetwork c),
        OnShutdownError := (if OnShutdownError c = None then Some logFatalf else OnShutdownError c) \<rparr>
   \<and> ListenerNetwork (startConfigDefault config) \<noteq> ''''
   \<and> GracefulTimeout (startConfigDefault config) \<noteq> 0
   \<and> GracefulSignals (startConfigDefault config) \<noteq> []
   \<and> OnShutdownError (startConfigDefault config) \<noteq> None
   \<and> startConfigDefault (startConfigDefault config # others) = startConfigDefault config"
  using startConfigDefault_Nil startConfigDefault_Cons [of c rest]
    startConfigDefault_nonzero [of config] startConfigDefault_idem [of config others]
  by blast

text \<open>
  Claim C4 as stated fails: it promises ten fields without a zero value after resolution.
  \<^verbatim>\<open>StartConfig\<close> has thirteen fields; resolving the empty input leaves nine of them
  at their zero value (the certificate path and the prefork flag among them), so only four
  fields, not ten, are non-zero.
\<close>

theorem startConfigDefault_ten_fields_counterexample:
  "zeroFields (startConfigDefault []) = 9
   \<and> \<not> 10 \<le> 13 - zeroFields (startConfigDefault [])
   \<and> CertFile (startConfigDefault []) = ''''
   \<and> \<not> EnablePrefork (startConfigDefault [])"
  by (simp add: startConfigDefault_Nil zeroFields_def NetworkTCP4_def ten_seconds_nonzero)

subsection \<open>Graceful shutdown controller\<close>

text \<open>
  Claim C1, as amended. After the signal has arrived, with a callback configured (as it is
  in every resolved configuration):
  \<^item> if the timer has already run out when the controller looks at it, the callback
    receives the timeout error, exactly once, nothing is drained, and the process ends
    with status 1 (or with the status the callback itself ends it with);
  \<^item> if the drain returns within the timeout, the drain runs, the callback is called
    only when the drain reported an error, with that error, and the process ends with
    status 0 (or with the status the callback itself ends it with);
  \<^item> on every run the callback is called at most once, and the drain runs exactly when
    the timer had not yet run out: one path or the other, never both.
  Nothing is said of a drain that outlasts the timeout.
\<close>

theorem gracefulShutdown_paths:
  assumes "signalArrives env" and "OnShutdownError cfg = Some f"
  shows
   "(sint (GracefulTimeout cfg) \<le> selectDelay env \<longrightarrow>
       gracefulShutdown env cfg =
         ([EvOnShutdownError ErrGracefulTimeout],
          case f ErrGracefulTimeout of CallbackReturns \<Rightarrow> Exit 1 | CallbackExits n \<Rightarrow> Exit n))
    \<and> (0 \<le> d \<and> selectDelay env + d < sint (GracefulTimeout cfg)
          \<and> drain env = DrainReturns d err \<longrightarrow>
       gracefulShutdown env cfg =
         (case err of
            None \<Rightarrow> ([EvShutdown], Exit 0)
          | Some e \<Rightarrow> ([EvShutdown, EvOnShutdownError e],
                       case f e of CallbackReturns \<Rightarrow> Exit 0 | CallbackExits n \<Rightarrow> Exit n)))
    \<and> length (filter (\<lambda>ev. \<exists>e. ev = EvOnShutdownError e) (fst (gracefulShutdown env cfg))) \<le> 1
    \<and> (EvShutdown \<in> set (fst (gracefulShutdown env cfg))
         \<longleftrightarrow> \<not> sint (GracefulTimeout cfg) \<le> selectDelay env)"
  using assms
  by (auto simp: gracefulShutdown_def
           split: callback_result.splits drain_result.splits option.splits)

text \<open>
  The theorem at two runs. With a timeout of one nanosecond and two nanoseconds gone
  before the \<^verbatim>\<open>select\<close>, a callback that returns sees the timeout error and the status is
  1. With the default timeout of ten seconds and a drain that takes one second and fails,
  the same callback sees the error of the drain and the status is 0.
\<close>

theorem gracefulShutdown_paths_witness:
  "gracefulShutdown \<lparr> signalArrives = True, selectDelay = 2, drain = DrainReturns 5 None \<rparr>
      ((startConfigDefault [])\<lparr> GracefulTimeout := 1,
                                 OnShutdownError := Some (\<lambda>err. CallbackReturns) \<rparr>)
     = ([EvOnShutdownError ErrGracefulTimeout], Exit 1)
   \<and> gracefulShutdown
        \<lparr> signalArrives = True, selectDelay = 0,
          drain = DrainReturns 1000000000 (Some (Err ''drain failed'')) \<rparr>
        ((startConfigDefault [])\<lparr> OnShutdownError := Some (\<lambda>err. CallbackReturns) \<rparr>)
     = ([EvShutdown, EvOnShutdownError (Err ''drain failed'')], Exit 0)"
proof -
  let ?f = "\<lambda>err::error. CallbackReturns"
  let ?env1 = "\<lparr> signalArrives = True, selectDelay = 2, drain = DrainReturns 5 None \<rparr>"
  let ?cfg1 = "(startConfigDefault [])\<lparr> GracefulTimeout := 1, OnShutdownError := Some ?f \<rparr>"
  let ?env2 = "\<lparr> signalArrives = True, selectDelay = 0,
                  drain = DrainReturns 1000000000 (Some (Err ''drain failed'')) \<rparr>"
  let ?cfg2 = "(startConfigDefault [])\<lparr> OnShutdownError := Some ?f \<rparr>"
  have s1: "signalArrives ?env1" and c1: "OnShutdownError ?cfg1 = Some ?f"
    and t1: "sint (GracefulTimeout ?cfg1) \<le> selectDelay ?env1"
    by simp_all
  have s2: "signalArrives ?env2" and c2: "OnShutdownError ?cfg2 = Some ?f"
    and t2: "0 \<le> (1000000000::int) \<and> selectDelay ?env2 + 1000000000 < sint (GracefulTimeout ?cfg2)
              \<and> drain ?env2 = DrainReturns 1000000000 (Some (Err ''drain failed''))"
    by (simp_all add: startConfigDefault_Nil sint_ten_seconds)
  from gracefulShutdown_paths [OF s1 c1, of 0 None] t1
  have "gracefulShutdown ?env1 ?cfg1 = ([EvOnShutdownError ErrGracefulTimeout], Exit 1)"
    by simp
  moreover
  from gracefulShutdown_paths [OF s2 c2, of 1000000000 "Some (Err ''drain failed'')"] t2
  have "gracefulShutdown ?env2 ?cfg2
          = ([EvShutdown, EvOnShutdownError (Err ''drain failed'')], Exit 0)"
    by simp
  ultimately show ?thesis by simp
qed

text \<open>
  Claim C1 as stated fails twice, under the default configuration (timeout ten seconds,
  callback \<^verbatim>\<open>log.Fatalf\<close>). A drain that takes twenty seconds is not cut short: the
  \<^verbatim>\<open>select\<close> does not wait for the timer, \<^verbatim>\<open>app.Shutdown()\<close> runs to its end, no timeout
  error is reported and the status is 0. A drain that takes one second and fails ends the
  process with status 1, not 0, because the default callback exits.
\<close>

theorem gracefulShutdown_race_counterexample:
  "sint (GracefulTimeout (startConfigDefault [])) < 20000000000
   \<and> gracefulShutdown \<lparr> signalArrives = True, selectDelay = 0,
                         drain = DrainReturns 20000000000 None \<rparr> (startConfigDefault [])
       = ([EvShutdown], Exit 0)
   \<and> 1000000000 < sint (GracefulTimeout (startConfigDefault []))
   \<and> gracefulShutdown \<lparr> signalArrives = True, selectDelay = 0,
                         drain = DrainReturns 1000000000 (Some (Err ''drain failed'')) \<rparr>
        (startConfigDefault [])
       = ([EvShutdown, EvOnShutdownError (Err ''drain failed'')], Exit 1)"
  by (simp add: startConfigDefault_Nil gracefulShutdown_def sint_ten_seconds logFatalf_def)

text \<open>
  Claim C10. When the caller configures no callback (no configuration at all, or one whose
  \<^verbatim>\<open>OnShutdownError\<close> is \<^verbatim>\<open>nil\<close>), the resolved callback is the one that calls
  \<^verbatim>\<open>log.Fatalf\<close>, which ends the process with status 1. So whenever the signal has
  arrived and the drain is one that reports an error, the process ends with status 1,
  never 0; and when the drain is run, the trace is the drain followed by the callback.
\<close>

theorem default_OnShutdownError_exits_1:
  assumes "config = [] \<or> OnShutdownError (hd config) = None"
    and "signalArrives env" and "drain env = DrainReturns d (Some err)"
  shows "OnShutdownError (startConfigDefault config) = Some logFatalf
    \<and> logFatalf err = CallbackExits 1
    \<and> snd (gracefulShutdown env (startConfigDefault config)) = Exit 1
    \<and> snd (gracefulShutdown env (startConfigDefault config)) \<noteq> Exit 0
    \<and> (\<not> sint (GracefulTimeout (startConfigDefault config)) \<le> selectDelay env \<longrightarrow>
         fst (gracefulShutdown env (startConfigDefault config))
           = [EvShutdown, EvOnShutdownError err])"
proof -
  have cb: "OnShutdownError (startConfigDefault config) = Some logFatalf"
    using assms(1) by (cases config) (auto simp: startConfigDefault_Nil startConfigDefault_Cons)
  show ?thesis
    using cb assms(2,3) by (simp add: gracefulShutdown_def logFatalf_def)
qed

text \<open>
  The theorem under the default configuration, with a drain that takes one second and
  fails: the status is 1.
\<close>

theorem default_OnShutdownError_exits_1_witness:
  "gracefulShutdown
     \<lparr> signalArrives = True, selectDelay = 0,
       drain = DrainReturns 1000000000 (Some (Err ''drain failed'')) \<rparr>
     (startConfigDefault [])
   = ([EvShutdown, EvOnShutdownError (Err ''drain failed'')], Exit 1)"
proof -
  let ?env = "\<lparr> signalArrives = True, selectDelay = 0,
                 drain = DrainReturns 1000000000 (Some (Err ''drain failed'')) \<rparr>"
  have h1: "([]::StartConfig list) = [] \<or> OnShutdownError (hd []) = None" by simp
  have h2: "signalArrives ?env" by simp
  have h3: "drain ?env = DrainReturns 1000000000 (Some (Err ''drain failed''))" by simp
  have h4: "\<not> sint (GracefulTimeout (startConfigDefault [])) \<le> selectDelay ?env"
    by (simp add: startConfigDefault_Nil sint_ten_seconds)
  from default_OnShutdownError_exits_1 [OF h1 h2 h3] h4
  have "fst (gracefulShutdown ?env (startConfigDefault [])) = [EvShutdown, EvOnShutdownError (Err ''drain failed'')]"
    and "snd (gracefulShutdown ?env (startConfigDefault [])) = Exit 1"
    by simp_all
  then show ?thesis by (simp add: prod_eq_iff)
qed

subsection \<open>The blocks of Start\<close>

lemma Start_tls_error:
  "Start_tlsConfig w (startConfigDefault config) = Inl err \<Longrightarrow>
   Start w app addr config = ([], Returns (Some err))"
  by (simp add: Start_def)

lemma Start_tls_ok:
  "Start_tlsConfig w (startConfigDefault config) = Inr t0 \<Longrightarrow>
   Start w app addr config =
     (let cfg = startConfigDefault config;
          ev0 = (case TLSConfigFunc cfg of Some f \<Rightarrow> [EvTLSConfigFunc t0] | None \<Rightarrow> []);
          tlsConfig = (case TLSConfigFunc cfg of Some f \<Rightarrow> map_option f t0 | None \<Rightarrow> t0)
      in (case Start_switch w addr tlsConfig cfg of
            (ev1, Leaves r) \<Rightarrow> (ev0 @ ev1, r)
          | (ev1, GoesOn ln) \<Rightarrow>
              (case Start_serve w app cfg ln of (ev2, r) \<Rightarrow> (ev0 @ ev1 @ ev2, r))))"
  by (simp add: Start_def Let_def)

lemma Start_goes_on:
  assumes "Start_tlsConfig w (startConfigDefault config) = Inr t0"
    and "Start_switch w addr
           (case TLSConfigFunc (startConfigDefault config) of
              Some f \<Rightarrow> map_option f t0 | None \<Rightarrow> t0)
           (startConfigDefault config) = (ev1, GoesOn ln)"
  shows "Start w app addr config =
     ((case TLSConfigFunc (startConfigDefault config) of
         Some f \<Rightarrow> [EvTLSConfigFunc t0] | None \<Rightarrow> [])
        @ ev1 @ fst (Start_serve w app (startConfigDefault config) ln),
      snd (Start_serve w app (startConfigDefault config) ln))"
  using assms by (simp add: Start_tls_ok Let_def split: prod.splits)

lemma Start_tlsConfig_load_fails:
  "CertFile cfg \<noteq> '''' \<Longrightarrow> CertKeyFile cfg \<noteq> '''' \<Longrightarrow>
   LoadX509KeyPair w (CertFile cfg) (CertKeyFile cfg) = Inl cause \<Longrightarrow>
   Start_tlsConfig w cfg = Inl (Errorf_TLSKeyPair (CertFile cfg) (CertKeyFile cfg) cause)"
  by (simp add: Start_tlsConfig_def)

lemma Start_tlsConfig_load_ok:
  "CertFile cfg \<noteq> '''' \<Longrightarrow> CertKeyFile cfg \<noteq> '''' \<Longrightarrow>
   LoadX509KeyPair w (CertFile cfg) (CertKeyFile cfg) = Inr cert \<Longrightarrow>
   Start_tlsConfig w cfg =
     (if CertClientFile cfg = '''' then
        Inr (Some \<lparr> MinVersion = VersionTLS12, Certificates = [cert],
                    ClientAuth = NoClientCert, ClientCAs = None \<rparr>)
      else case ReadFile w (Clean w (CertClientFile cfg)) of
             Inl err \<Rightarrow> Inl err
           | Inr pem \<Rightarrow>
               Inr (Some \<lparr> MinVersion = VersionTLS12, Certificates = [cert],
                           ClientAuth = RequireAndVerifyClientCert,
                           ClientCAs = Some (parsePEM w pem) \<rparr>))"
  by (simp add: Start_tlsConfig_def Let_def AppendCertsFromPEM_def NewCertPool_def
           split: sum.splits)

lemma Start_switch_prefork:
  "EnablePrefork cfg \<Longrightarrow>
   Start_switch w (AString a) t cfg = ([EvPrefork a t], Leaves (Returns (prefork w a t cfg)))"
  by (simp add: Start_switch_def)

lemma Start_switch_other:
  "Start_switch w (AOther t) tlsConfig cfg =
     ([], Leaves (Panics (PanicString
        ''start: invalid handler, you must use string or net.Listener as addr type'')))"
  by (simp add: Start_switch_def)

lemma Start_switch_events:
  "Start_switch w addr t cfg = (ev1, x) \<Longrightarrow>
   EvExecuteOnListenHooks \<notin> set ev1 \<and> EvBuildTree \<notin> set ev1
   \<and> EvBeforeServeFunc \<notin> set ev1 \<and> (\<forall>l. EvServe l \<notin> set ev1)"
  by (auto simp: Start_switch_def createListener_def Let_def
           split: addr_value.splits if_splits prod.splits outcome.splits option.splits
             sum.splits)

lemma executeOnListenHooks_first_error:
  "\<forall>h\<in>set pre. h = None \<Longrightarrow> executeOnListenHooks (pre @ Some err # post) = Some err"
  by (induction pre) simp_all

lemma startupProcess_hook_error:
  "executeOnListenHooks (onListen app) = Some err \<Longrightarrow>
   startupProcess app = ([EvExecuteOnListenHooks], Panics (PanicError err))"
  by (simp add: startupProcess_def)

lemma Start_serve_hook_error:
  "executeOnListenHooks (onListen app) = Some err \<Longrightarrow>
   Start_serve w app cfg ln = ([EvExecuteOnListenHooks], Panics (PanicError err))"
  by (simp add: Start_serve_def startupProcess_hook_error)

lemma createListener_bind_fails:
  assumes "(case tlsConfig of
              Some tc \<Rightarrow> tls_Listen w (ListenerNetwork cfg) addr tc
            | None \<Rightarrow> net_Listen w (ListenerNetwork cfg) addr) = Inl e"
  shows "createListener w addr tlsConfig cfg =
           ([EvListen (ListenerNetwork cfg) addr tlsConfig],
            if ListenerAddrFunc cfg = None then Returns (None, Some e)
            else Panics NilPointerDereference)"
  using assms by (simp add: createListener_def Let_def)

lemma createListener_bound:
  assumes "(case tlsConfig of
              Some tc \<Rightarrow> tls_Listen w (ListenerNetwork cfg) addr tc
            | None \<Rightarrow> net_Listen w (ListenerNetwork cfg) addr) = Inr ln"
  shows "createListener w addr tlsConfig cfg =
           (EvListen (ListenerNetwork cfg) addr tlsConfig
              # (if ListenerAddrFunc cfg = None then [] else [EvListenerAddrFunc (Addr ln)]),
            Returns (Some ln, None))"
  using assms by (simp add: createListener_def Let_def)

subsection \<open>TLS configuration\<close>

text \<open>
  Claim C5. Let the certificate file and the key file both be set. If loading the key
  pair fails, \<^verbatim>\<open>Start\<close> returns an error that carries both paths and the cause, and
  its trace is empty: no listener is opened, with or without TLS, whatever the address
  argument is. If loading succeeds, every TLS configuration the block assembles has
  \<^verbatim>\<open>tls.VersionTLS12\<close> as its minimum version and the loaded certificate as its
  certificate; the block ends without one only when the client certificate file is set
  and cannot be read.
\<close>

theorem Start_key_pair_load:
  assumes "CertFile c \<noteq> ''''" and "CertKeyFile c \<noteq> ''''"
  shows
    "case LoadX509KeyPair w (CertFile c) (CertKeyFile c) of
       Inl cause \<Rightarrow>
         Start w app addr (c # rest)
           = ([], Returns (Some (Errorf_TLSKeyPair (CertFile c) (CertKeyFile c) cause)))
     | Inr cert \<Rightarrow>
         (case Start_tlsConfig w (startConfigDefault (c # rest)) of
            Inl err \<Rightarrow>
              CertClientFile c \<noteq> '''' \<and> ReadFile w (Clean w (CertClientFile c)) = Inl err
          | Inr tlsConfig \<Rightarrow>
              (\<exists>tc. tlsConfig = Some tc \<and> MinVersion tc = VersionTLS12
                    \<and> Certificates tc = [cert]))"
proof (cases "LoadX509KeyPair w (CertFile c) (CertKeyFile c)")
  case (Inl cause)
  with assms
  have "Start_tlsConfig w (startConfigDefault (c # rest))
          = Inl (Errorf_TLSKeyPair (CertFile c) (CertKeyFile c) cause)"
    using Start_tlsConfig_load_fails [of "startConfigDefault (c # rest)" w cause]
    by (simp add: startConfigDefault_passes)
  then have "Start w app addr (c # rest)
          = ([], Returns (Some (Errorf_TLSKeyPair (CertFile c) (CertKeyFile c) cause)))"
    by (rule Start_tls_error)
  with Inl show ?thesis by simp
next
  case (Inr cert)
  with assms show ?thesis
    using Start_tlsConfig_load_ok [of "startConfigDefault (c # rest)" w cert]
    by (simp add: startConfigDefault_passes split: sum.splits)
qed

text \<open>
  The theorem in the sample world: with files that do not exist, \<^verbatim>\<open>Start\<close> on the free
  TLS port returns the error and opens nothing; with the key pair that loads, the assembled
  configuration has the minimum version 0x0303 and the certificate.
\<close>

theorem Start_key_pair_load_witness:
  "Start sampleWorld \<lparr> onListen = [] \<rparr> (AString '':8443'')
     [(startConfigDefault [])\<lparr> CertFile := ''missing.pem'', CertKeyFile := ''missing.key'' \<rparr>]
     = ([], Returns (Some (Errorf_TLSKeyPair ''missing.pem'' ''missing.key''
                             (Err ''open: no such file or directory''))))
   \<and> (\<exists>tc. Start_tlsConfig sampleWorld
               (startConfigDefault
                  [(startConfigDefault [])\<lparr> CertFile := ''cert.pem'',
                                             CertKeyFile := ''key.pem'' \<rparr>])
              = Inr (Some tc)
            \<and> MinVersion tc = 0x0303 \<and> Certificates tc = [KeyPair ''cert.pem''])"
proof -
  let ?c1 = "(startConfigDefault [])\<lparr> CertFile := ''missing.pem'', CertKeyFile := ''missing.key'' \<rparr>"
  let ?c2 = "(startConfigDefault [])\<lparr> CertFile := ''cert.pem'', CertKeyFile := ''key.pem'' \<rparr>"
  have a1: "CertFile ?c1 \<noteq> ''''" and b1: "CertKeyFile ?c1 \<noteq> ''''"
    and a2: "CertFile ?c2 \<noteq> ''''" and b2: "CertKeyFile ?c2 \<noteq> ''''"
    by simp_all
  have nc: "CertClientFile ?c2 = ''''"
    by (simp add: startConfigDefault_Nil)
  from Start_key_pair_load [OF a1 b1, of sampleWorld "\<lparr> onListen = [] \<rparr>" "AString '':8443''" "[]"]
  have "Start sampleWorld \<lparr> onListen = [] \<rparr> (AString '':8443'') [?c1]
     = ([], Returns (Some (Errorf_TLSKeyPair ''missing.pem'' ''missing.key''
                             (Err ''open: no such file or directory''))))"
    by (simp add: sampleWorld_def)
  moreover
  from Start_key_pair_load [OF a2 b2, of sampleWorld "\<lparr> onListen = [] \<rparr>" "AString '':8443''" "[]"]
  have "\<exists>tc. Start_tlsConfig sampleWorld (startConfigDefault [?c2]) = Inr (Some tc)
           \<and> MinVersion tc = 0x0303 \<and> Certificates tc = [KeyPair ''cert.pem'']"
    using nc
    by (auto simp: sampleWorld_def startConfigDefault_passes VersionTLS12_def split: sum.splits)
  ultimately show ?thesis by simp
qed

text \<open>
  Claim C6. Let the certificate file, the key file and the client certificate file all be
  set, let the key pair load (so that a TLS configuration is assembled) and let the client
  certificate file be readable. Then the assembled configuration has the client
  authentication mode require-and-verify, and its client CA pool holds exactly the
  certificates parsed from the bytes of that file. Under the rule \<^verbatim>\<open>crypto/tls\<close>
  applies for this mode, a client that presents no certificate does not pass, and a client
  that presents one passes exactly when a certificate of that pool vouches for it.
\<close>

theorem Start_tlsConfig_mutual_TLS:
  assumes "CertFile c \<noteq> ''''" and "CertKeyFile c \<noteq> ''''" and "CertClientFile c \<noteq> ''''"
    and "LoadX509KeyPair w (CertFile c) (CertKeyFile c) = Inr cert"
    and "ReadFile w (Clean w (CertClientFile c)) = Inr pem"
  shows "\<exists>tc. Start_tlsConfig w (startConfigDefault (c # rest)) = Inr (Some tc)
           \<and> ClientAuth tc = RequireAndVerifyClientCert
           \<and> ClientCAs tc = Some (parsePEM w pem)
           \<and> \<not> clientAuthPasses vouches tc None
           \<and> (\<forall>x. clientAuthPasses vouches tc (Some x)
                    = list_ex (\<lambda>ca. vouches ca x) (parsePEM w pem))"
  using assms Start_tlsConfig_load_ok [of "startConfigDefault (c # rest)" w cert]
  by (simp add: startConfigDefault_passes clientAuthPasses_def verifiedBy_def)

text \<open>
  The theorem in the sample world, with \<^verbatim>\<open>ca.pem\<close> as the client certificate file: the
  pool holds the one certificate of the file; no certificate and a foreign certificate are
  turned down, the certificate of the pool passes.
\<close>

theorem Start_tlsConfig_mutual_TLS_witness:
  "\<exists>tc. Start_tlsConfig sampleWorld
           (startConfigDefault
              [(startConfigDefault [])\<lparr> CertFile := ''cert.pem'', CertKeyFile := ''key.pem'',
                                         CertClientFile := ''ca.pem'' \<rparr>])
          = Inr (Some tc)
        \<and> ClientAuth tc = RequireAndVerifyClientCert
        \<and> ClientCAs tc = Some [X509 ''ca'']
        \<and> \<not> clientAuthPasses sampleVouches tc None
        \<and> \<not> clientAuthPasses sampleVouches tc (Some (X509 ''stranger''))
        \<and> clientAuthPasses sampleVouches tc (Some (X509 ''ca''))"
proof -
  let ?c = "(startConfigDefault [])\<lparr> CertFile := ''cert.pem'', CertKeyFile := ''key.pem'',
                                      CertClientFile := ''ca.pem'' \<rparr>"
  have a: "CertFile ?c \<noteq> ''''" and b: "CertKeyFile ?c \<noteq> ''''" and d: "CertClientFile ?c \<noteq> ''''"
    by simp_all
  have l: "LoadX509KeyPair sampleWorld (CertFile ?c) (CertKeyFile ?c) = Inr (KeyPair ''cert.pem'')"
    and r: "ReadFile sampleWorld (Clean sampleWorld (CertClientFile ?c)) = Inr ''PEM ca''"
    and p: "parsePEM sampleWorld ''PEM ca'' = [X509 ''ca'']"
    by (simp_all add: sampleWorld_def)
  from Start_tlsConfig_mutual_TLS [OF a b d l r, of "[]" sampleVouches]
  show ?thesis
    unfolding p by (auto simp: sampleVouches_def)
qed

text \<open>
  Claim C9. Let the certificate file and the key file be set and the key pair load, so that
  the block reaches the client certificate file; let that file be set and readable, and
  let no certificate be parsed from its bytes. Then the block reports no error: it yields
  a TLS configuration with the mode require-and-verify and an empty client CA pool.
  \<^verbatim>\<open>AppendCertsFromPEM\<close> does answer \<^verbatim>\<open>false\<close>, and the answer is not looked at. Under
  the rule of \<^verbatim>\<open>crypto/tls\<close> for this mode no client passes against this configuration,
  whatever it presents. Start-up goes on with it: without a \<^verbatim>\<open>TLSConfigFunc\<close> and without
  prefork, the first call \<^verbatim>\<open>Start\<close> makes for a textual address is the TLS listen with
  exactly this configuration.
\<close>

theorem Start_tlsConfig_unparsable_client_CA:
  assumes "CertFile c \<noteq> ''''" and "CertKeyFile c \<noteq> ''''" and "CertClientFile c \<noteq> ''''"
    and "LoadX509KeyPair w (CertFile c) (CertKeyFile c) = Inr cert"
    and "ReadFile w (Clean w (CertClientFile c)) = Inr pem"
    and "parsePEM w pem = []"
  shows "Start_tlsConfig w (startConfigDefault (c # rest))
           = Inr (Some \<lparr> MinVersion = VersionTLS12, Certificates = [cert],
                         ClientAuth = RequireAndVerifyClientCert, ClientCAs = Some [] \<rparr>)
         \<and> AppendCertsFromPEM w NewCertPool pem = ([], False)
         \<and> (\<forall>presented. \<not> clientAuthPasses vouches
                \<lparr> MinVersion = VersionTLS12, Certificates = [cert],
                  ClientAuth = RequireAndVerifyClientCert, ClientCAs = Some [] \<rparr> presented)
         \<and> (TLSConfigFunc c = None \<and> \<not> EnablePrefork c \<longrightarrow>
              (\<exists>evs. fst (Start w app (AString a) (c # rest))
                 = EvListen (ListenerNetwork (startConfigDefault (c # rest))) a
                     (Some \<lparr> MinVersion = VersionTLS12, Certificates = [cert],
                             ClientAuth = RequireAndVerifyClientCert, ClientCAs = Some [] \<rparr>)
                   # evs))"
proof -
  let ?tc = "\<lparr> MinVersion = VersionTLS12, Certificates = [cert],
               ClientAuth = RequireAndVerifyClientCert, ClientCAs = Some [] \<rparr>"
  let ?cfg = "startConfigDefault (c # rest)"
  have tls: "Start_tlsConfig w ?cfg = Inr (Some ?tc)"
    using assms Start_tlsConfig_load_ok [of ?cfg w cert]
    by (simp add: startConfigDefault_passes)
  have app: "AppendCertsFromPEM w NewCertPool pem = ([], False)"
    using assms(6) by (simp add: AppendCertsFromPEM_def NewCertPool_def)
  have rej: "\<forall>presented. \<not> clientAuthPasses vouches ?tc presented"
    by (simp add: clientAuthPasses_def verifiedBy_def split: option.splits)
  have go: "TLSConfigFunc c = None \<and> \<not> EnablePrefork c \<longrightarrow>
              (\<exists>evs. fst (Start w app (AString a) (c # rest))
                 = EvListen (ListenerNetwork ?cfg) a (Some ?tc) # evs)"
  proof
    assume h: "TLSConfigFunc c = None \<and> \<not> EnablePrefork c"
    then have "\<exists>evs x. Start_switch w (AString a) (Some ?tc) ?cfg
                 = (EvListen (ListenerNetwork ?cfg) a (Some ?tc) # evs, x)"
      by (auto simp: Start_switch_def createListener_def Let_def startConfigDefault_passes
               split: sum.splits option.splits)
    then obtain evs x where sw: "Start_switch w (AString a) (Some ?tc) ?cfg
                 = (EvListen (ListenerNetwork ?cfg) a (Some ?tc) # evs, x)" by blast
    show "\<exists>evs. fst (Start w app (AString a) (c # rest))
                 = EvListen (ListenerNetwork ?cfg) a (Some ?tc) # evs"
      using h sw by (cases x) (simp_all add: Start_tls_ok [OF tls] Let_def
          startConfigDefault_passes split: prod.splits)
  qed
  show ?thesis using tls app rej go by blast
qed

text \<open>
  The theorem in the sample world, with the readable file \<^verbatim>\<open>notes.txt\<close>, which holds no
  certificate, as the client certificate file: the pool is empty, the certificate of
  \<^verbatim>\<open>ca.pem\<close> does not pass, and \<^verbatim>\<open>Start\<close> on the free TLS port serves with that
  configuration and ends with the error of the accept loop.
\<close>

theorem Start_tlsConfig_unparsable_client_CA_witness:
  "Start_tlsConfig sampleWorld
     (startConfigDefault
        [(startConfigDefault [])\<lparr> CertFile := ''cert.pem'', CertKeyFile := ''key.pem'',
                                   CertClientFile := ''notes.txt'' \<rparr>])
     = Inr (Some \<lparr> MinVersion = VersionTLS12, Certificates = [KeyPair ''cert.pem''],
                   ClientAuth = RequireAndVerifyClientCert, ClientCAs = Some [] \<rparr>)
   \<and> \<not> clientAuthPasses sampleVouches
         \<lparr> MinVersion = VersionTLS12, Certificates = [KeyPair ''cert.pem''],
           ClientAuth = RequireAndVerifyClientCert, ClientCAs = Some [] \<rparr> (Some (X509 ''ca''))
   \<and> hd (fst (Start sampleWorld \<lparr> onListen = [] \<rparr> (AString '':8443'')
        [(startConfigDefault [])\<lparr> CertFile := ''cert.pem'', CertKeyFile := ''key.pem'',
                                   CertClientFile := ''notes.txt'' \<rparr>]))
     = EvListen ''tcp4'' '':8443''
         (Some \<lparr> MinVersion = VersionTLS12, Certificates = [KeyPair ''cert.pem''],
                 ClientAuth = RequireAndVerifyClientCert, ClientCAs = Some [] \<rparr>)"
proof -
  let ?c = "(startConfigDefault [])\<lparr> CertFile := ''cert.pem'', CertKeyFile := ''key.pem'',
                                      CertClientFile := ''notes.txt'' \<rparr>"
  have a: "CertFile ?c \<noteq> ''''" and b: "CertKeyFile ?c \<noteq> ''''" and d: "CertClientFile ?c \<noteq> ''''"
    by simp_all
  have l: "LoadX509KeyPair sampleWorld (CertFile ?c) (CertKeyFile ?c) = Inr (KeyPair ''cert.pem'')"
    and r: "ReadFile sampleWorld (Clean sampleWorld (CertClientFile ?c))
              = Inr ''no certificate here''"
    and p: "parsePEM sampleWorld ''no certificate here'' = []"
    by (simp_all add: sampleWorld_def)
  have n: "TLSConfigFunc ?c = None \<and> \<not> EnablePrefork ?c"
    and nw: "ListenerNetwork (startConfigDefault [?c]) = ''tcp4''"
    by (simp_all add: startConfigDefault_Nil startConfigDefault_Cons NetworkTCP4_def)
  from Start_tlsConfig_unparsable_client_CA
         [OF a b d l r p, of "[]" sampleVouches "\<lparr> onListen = [] \<rparr>" "'':8443''"] n nw
  show ?thesis by auto
qed

subsection \<open>Dispatch on the address argument\<close>

text \<open>
  Claim C7. Let the address be textual and prefork be enabled in the resolved
  configuration, and let the TLS block have assembled its configuration \<open>tlsConfig0\<close>
  (\<^verbatim>\<open>nil\<close> when TLS is off). Then \<^verbatim>\<open>Start\<close> calls the prefork coordinator with the raw
  address, the assembled TLS configuration (as \<^verbatim>\<open>TLSConfigFunc\<close>, when set, has left
  it) and the resolved configuration, and returns what the coordinator returns. Besides
  the \<^verbatim>\<open>TLSConfigFunc\<close> hook this is the only call it makes: it opens no listener, runs
  no start-up hook, builds no tree, prints nothing and does not serve.
\<close>

theorem Start_prefork_delegates:
  assumes "Start_tlsConfig w (startConfigDefault config) = Inr tlsConfig0"
    and "EnablePrefork (startConfigDefault config)"
  shows "Start w app (AString a) config =
     (case TLSConfigFunc (startConfigDefault config) of
        None \<Rightarrow>
          ([EvPrefork a tlsConfig0],
           Returns (prefork w a tlsConfig0 (startConfigDefault config)))
      | Some f \<Rightarrow>
          ([EvTLSConfigFunc tlsConfig0, EvPrefork a (map_option f tlsConfig0)],
           Returns (prefork w a (map_option f tlsConfig0) (startConfigDefault config))))"
  using assms
  by (simp add: Start_tls_ok Let_def Start_switch_prefork split: option.splits)

text \<open>
  The theorem in the sample world, with prefork enabled and no TLS: the only call is the
  one to the coordinator, and its error is the result, although port 8080 is free.
\<close>

theorem Start_prefork_delegates_witness:
  "Start sampleWorld \<lparr> onListen = [] \<rparr> (AString '':8080'')
     [(startConfigDefault [])\<lparr> EnablePrefork := True \<rparr>]
   = ([EvPrefork '':8080'' None], Returns (Some (Err ''prefork: child exited'')))"
proof -
  let ?c = "(startConfigDefault [])\<lparr> EnablePrefork := True \<rparr>"
  have h1: "Start_tlsConfig sampleWorld (startConfigDefault [?c]) = Inr None"
    by (simp add: Start_tlsConfig_def startConfigDefault_Nil startConfigDefault_passes)
  have h2: "EnablePrefork (startConfigDefault [?c])"
    by (simp add: startConfigDefault_passes)
  have h3: "TLSConfigFunc (startConfigDefault [?c]) = None"
    by (simp add: startConfigDefault_passes startConfigDefault_Nil)
  from Start_prefork_delegates [OF h1 h2, of "\<lparr> onListen = [] \<rparr>" "'':8080''"]
  show ?thesis
    by (simp add: h3 sampleWorld_def)
qed

text \<open>
  Claim C8, as amended. Let the argument be neither a textual address nor a listener.
  \<^verbatim>\<open>Start\<close> then panics with the message of line 211, a fatal contract violation and
  not a returned error, unless the TLS block fails first (the key pair does not load, or
  the client certificate file cannot be read): in that case it returns that error. It
  never falls back to some behaviour of its own: the equation gives the whole trace, which
  is empty when the TLS block fails and otherwise holds at most the one call of
  \<^verbatim>\<open>TLSConfigFunc\<close> that lines 176 to 178 make, when that hook is set, before the switch.
\<close>

theorem Start_invalid_addr:
  "Start w app (AOther t) config =
     (case Start_tlsConfig w (startConfigDefault config) of
        Inl err \<Rightarrow> ([], Returns (Some err))
      | Inr tlsConfig0 \<Rightarrow>
          (case TLSConfigFunc (startConfigDefault config) of
             None \<Rightarrow> []
           | Some f \<Rightarrow> [EvTLSConfigFunc tlsConfig0],
           Panics (PanicString
             ''start: invalid handler, you must use string or net.Listener as addr type'')))"
  by (cases "Start_tlsConfig w (startConfigDefault config)")
     (simp_all add: Start_tls_error Start_tls_ok Let_def Start_switch_other split: option.splits)

text \<open>
  The theorem in the sample world, with an integer as the argument. Without a
  configuration \<^verbatim>\<open>Start\<close> panics and has made no call. With a \<^verbatim>\<open>TLSConfigFunc\<close> set
  (and TLS off) it panics as well, after it has called that hook with \<^verbatim>\<open>nil\<close>.
\<close>

theorem Start_invalid_addr_witness:
  "Start sampleWorld \<lparr> onListen = [] \<rparr> (AOther ''int'') []
   = ([], Panics (PanicString
            ''start: invalid handler, you must use string or net.Listener as addr type''))
   \<and> Start sampleWorld \<lparr> onListen = [] \<rparr> (AOther ''int'')
       [(startConfigDefault [])\<lparr> TLSConfigFunc := Some (\<lambda>tc. tc) \<rparr>]
   = ([EvTLSConfigFunc None], Panics (PanicString
            ''start: invalid handler, you must use string or net.Listener as addr type''))"
proof -
  let ?c = "(startConfigDefault [])\<lparr> TLSConfigFunc := Some (\<lambda>tc. tc) \<rparr>"
  have h1: "Start_tlsConfig sampleWorld (startConfigDefault []) = Inr None"
    by (simp add: Start_tlsConfig_def startConfigDefault_Nil)
  have n1: "TLSConfigFunc (startConfigDefault []) = None"
    by (simp add: startConfigDefault_Nil)
  have h2: "Start_tlsConfig sampleWorld (startConfigDefault [?c]) = Inr None"
    by (simp add: Start_tlsConfig_def startConfigDefault_passes startConfigDefault_Nil)
  have n2: "TLSConfigFunc (startConfigDefault [?c]) = Some (\<lambda>tc. tc)"
    by (simp add: startConfigDefault_passes)
  from Start_invalid_addr [of sampleWorld "\<lparr> onListen = [] \<rparr>" "''int''" "[]"]
  have "Start sampleWorld \<lparr> onListen = [] \<rparr> (AOther ''int'') []
   = ([], Panics (PanicString
            ''start: invalid handler, you must use string or net.Listener as addr type''))"
    by (simp add: h1 n1)
  moreover
  from Start_invalid_addr [of sampleWorld "\<lparr> onListen = [] \<rparr>" "''int''" "[?c]"]
  have "Start sampleWorld \<lparr> onListen = [] \<rparr> (AOther ''int'') [?c]
   = ([EvTLSConfigFunc None], Panics (PanicString
            ''start: invalid handler, you must use string or net.Listener as addr type''))"
    by (simp add: h2 n2)
  ultimately show ?thesis by simp
qed

text \<open>
  Claim C8 as stated fails: with an integer as the argument and certificate files that do
  not exist, \<^verbatim>\<open>Start\<close> does not panic. It returns the error of the key pair, an ordinary
  returned error, before it looks at the type of the argument.
\<close>

theorem Start_invalid_addr_counterexample:
  "Start sampleWorld \<lparr> onListen = [] \<rparr> (AOther ''int'')
     [(startConfigDefault [])\<lparr> CertFile := ''missing.pem'', CertKeyFile := ''missing.key'' \<rparr>]
   = ([], Returns (Some (Errorf_TLSKeyPair ''missing.pem'' ''missing.key''
                           (Err ''open: no such file or directory''))))"
  by (simp add: Start_def Start_tlsConfig_def startConfigDefault_passes sampleWorld_def)

subsection \<open>Start-up hooks\<close>

text \<open>
  Claim C2, as amended. Let a start-up hook return an error, all hooks before it having
  returned \<^verbatim>\<open>nil\<close>, and let \<^verbatim>\<open>Start\<close> reach \<^verbatim>\<open>startupProcess\<close> (the TLS block has
  not failed and the switch has left a listener \<open>ln\<close>, after the calls \<open>ev1\<close>). Then
  \<^verbatim>\<open>Start\<close> does not return: it panics, and the panic carries the error of that hook.
  Running the hooks is its last call: it builds no tree, does not call
  \<^verbatim>\<open>BeforeServeFunc\<close> and never serves, so no connection is accepted.
\<close>

theorem Start_on_listen_hook_error_panics:
  assumes "onListen app = pre @ Some err # post" and "\<forall>h\<in>set pre. h = None"
    and "Start_tlsConfig w (startConfigDefault config) = Inr tlsConfig0"
    and "Start_switch w addr
           (case TLSConfigFunc (startConfigDefault config) of
              Some f \<Rightarrow> map_option f tlsConfig0 | None \<Rightarrow> tlsConfig0)
           (startConfigDefault config) = (ev1, GoesOn ln)"
  shows "Start w app addr config =
           ((case TLSConfigFunc (startConfigDefault config) of
               Some f \<Rightarrow> [EvTLSConfigFunc tlsConfig0] | None \<Rightarrow> [])
              @ ev1 @ [EvExecuteOnListenHooks],
            Panics (PanicError err))
         \<and> EvBuildTree \<notin> set (fst (Start w app addr config))
         \<and> EvBeforeServeFunc \<notin> set (fst (Start w app addr config))
         \<and> (\<forall>l. EvServe l \<notin> set (fst (Start w app addr config)))"
proof -
  have "executeOnListenHooks (onListen app) = Some err"
    using assms(1,2) by (simp add: executeOnListenHooks_first_error)
  then have serve: "Start_serve w app (startConfigDefault config) ln
      = ([EvExecuteOnListenHooks], Panics (PanicError err))"
    by (rule Start_serve_hook_error)
  have eq: "Start w app addr config =
           ((case TLSConfigFunc (startConfigDefault config) of
               Some f \<Rightarrow> [EvTLSConfigFunc tlsConfig0] | None \<Rightarrow> [])
              @ ev1 @ [EvExecuteOnListenHooks],
            Panics (PanicError err))"
    using Start_goes_on [OF assms(3,4), of app] serve by simp
  show ?thesis
    using Start_switch_events [OF assms(4)] by (simp add: eq split: option.splits)
qed

text \<open>
  The theorem in the sample world, on the free port 8080 with two hooks, the second of
  which fails: the listener is bound, the hooks run, and \<^verbatim>\<open>Start\<close> panics.
\<close>

theorem Start_on_listen_hook_error_panics_witness:
  "Start sampleWorld \<lparr> onListen = [None, Some (Err ''hook failed'')] \<rparr> (AString '':8080'') []
     = ([EvListen ''tcp4'' '':8080'' None, EvExecuteOnListenHooks],
        Panics (PanicError (Err ''hook failed'')))"
proof -
  let ?app = "\<lparr> onListen = [None, Some (Err ''hook failed'')] \<rparr>"
  let ?ln = "\<lparr> Addr = \<lparr> Network = ''tcp4'', String = '':8080'' \<rparr>, lnTLS = None \<rparr>"
  have h1: "onListen ?app = [None] @ Some (Err ''hook failed'') # []" by simp
  have h2: "\<forall>h\<in>set [None :: error option]. h = None" by simp
  have h3: "Start_tlsConfig sampleWorld (startConfigDefault []) = Inr None"
    by (simp add: Start_tlsConfig_def startConfigDefault_Nil)
  have h4: "Start_switch sampleWorld (AString '':8080'')
           (case TLSConfigFunc (startConfigDefault []) of
              Some f \<Rightarrow> map_option f None | None \<Rightarrow> None)
           (startConfigDefault []) = ([EvListen ''tcp4'' '':8080'' None], GoesOn ?ln)"
    by (simp add: startConfigDefault_Nil Start_switch_def createListener_def sampleWorld_def
          NetworkTCP4_def)
  from Start_on_listen_hook_error_panics [OF h1 h2 h3 h4] show ?thesis
    by (simp add: startConfigDefault_Nil)
qed

text \<open>
  Claim C2 as stated fails: the error of a failing hook is not returned to the caller of
  \<^verbatim>\<open>Start\<close>. On the free port 8080, with a second hook that fails, \<^verbatim>\<open>Start\<close> ends in a
  panic that carries the error; it does not return it.
\<close>

theorem Start_on_listen_hook_error_counterexample:
  "Start sampleWorld \<lparr> onListen = [None, Some (Err ''hook failed'')] \<rparr> (AString '':8080'') []
     = ([EvListen ''tcp4'' '':8080'' None, EvExecuteOnListenHooks],
        Panics (PanicError (Err ''hook failed'')))
   \<and> snd (Start sampleWorld \<lparr> onListen = [None, Some (Err ''hook failed'')] \<rparr>
             (AString '':8080'') [])
       \<noteq> Returns (Some (Err ''hook failed''))"
  by (simp add: Start_def Start_tlsConfig_def startConfigDefault_Nil Start_switch_def
        createListener_def sampleWorld_def Start_serve_def startupProcess_def NetworkTCP4_def)

subsection \<open>Listener factory\<close>

text \<open>
  Claim C3 does not hold of the code. In the sample world port 9090 is in use, so the bind
  fails. With a \<^verbatim>\<open>ListenerAddrFunc\<close> configured, \<^verbatim>\<open>createListener\<close> does not return the
  bind error: it panics on the \<^verbatim>\<open>nil\<close> listener at line 242, and so does \<^verbatim>\<open>Start\<close>.
  Without the hook the same call returns the bind error, as the claim says it should.
\<close>

theorem createListener_bind_failure_with_hook_panics:
  "net_Listen sampleWorld ''tcp4'' '':9090'' = Inl (Err ''bind: address already in use'')
   \<and> createListener sampleWorld '':9090'' None
        ((startConfigDefault [])\<lparr> ListenerAddrFunc := Some (\<lambda>addr. ()) \<rparr>)
       = ([EvListen ''tcp4'' '':9090'' None], Panics NilPointerDereference)
   \<and> Start sampleWorld \<lparr> onListen = [] \<rparr> (AString '':9090'')
        [(startConfigDefault [])\<lparr> ListenerAddrFunc := Some (\<lambda>addr. ()) \<rparr>]
       = ([EvListen ''tcp4'' '':9090'' None], Panics NilPointerDereference)
   \<and> createListener sampleWorld '':9090'' None (startConfigDefault [])
       = ([EvListen ''tcp4'' '':9090'' None],
          Returns (None, Some (Err ''bind: address already in use'')))"
  by (simp add: Start_def Start_tlsConfig_def startConfigDefault_Nil startConfigDefault_Cons
        Start_switch_def createListener_def sampleWorld_def NetworkTCP4_def ten_seconds_nonzero)

end
